theory Spec2Isabelle
  imports Complex_Main "HOL-Library.Log_Nat"
begin

section \<open>JavaScript values\<close>

text \<open>
  The evaluator is TypeScript; every runtime value it touches is a JavaScript value.
  A number is an IEEE 754 double: \<open>Fin q\<close> is the finite double of value \<open>q\<close> (\<open>Fin 0\<close>
  is +0), beside negative zero, NaN and the two infinities. What \<open>Number\<close> and \<open>+\<close>
  compute is rounded to a double by \<open>toDouble\<close>.
\<close>

datatype jsnum = Fin rat | NegZero | NaN | PosInf | NegInf

fun negate :: "jsnum \<Rightarrow> jsnum" where
  "negate (Fin q) = (if q = 0 then NegZero else Fin (- q))"
| "negate NegZero = Fin 0"
| "negate NaN = NaN"
| "negate PosInf = NegInf"
| "negate NegInf = PosInf"

subsection \<open>Rounding to a double\<close>

definition pow2 :: "int \<Rightarrow> rat" where
  "pow2 k = (if 0 \<le> k then 2 ^ nat k else 1 / 2 ^ nat (- k))"

text \<open>The nearest integer, a tie going to the even one.\<close>

definition roundHalfEven :: "rat \<Rightarrow> int" where
  "roundHalfEven q =
     (let f = \<lfloor>q\<rfloor>; d = q - of_int f in
      if d < 1 / 2 then f else if 1 / 2 < d then f + 1 else if even f then f else f + 1)"

text \<open>
  The binary exponent of a positive rational, \<open>2 ^ e \<le> a < 2 ^ (e + 1)\<close>: the
  difference of the bit lengths of numerator and denominator, or one less.
\<close>

definition floorLog2 :: "rat \<Rightarrow> int" where
  "floorLog2 a =
     (let k = bitlen (fst (quotient_of a)) - bitlen (snd (quotient_of a)) in
      if pow2 k \<le> a then k else k - 1)"

text \<open>
  The double nearest to a positive rational (round to nearest, ties to even): 53
  significant bits, the spacing never below \<open>2 ^ - 1074\<close> (subnormals), and infinity
  from \<open>2 ^ 1024\<close> on.
\<close>

definition toDoubleAbs :: "rat \<Rightarrow> jsnum" where
  "toDoubleAbs a =
     (let p = max (floorLog2 a - 52) (- 1074);
          r = of_int (roundHalfEven (a / pow2 p)) * pow2 p
      in if pow2 1024 \<le> r then PosInf else Fin r)"

text \<open>
  Every integer up to \<open>2 ^ 53 = 9007199254740992\<close> in magnitude is a double
  (\<open>toDoubleAbs_exact\<close>); the other values are rounded, and a negative value that
  rounds to zero is negative zero.
\<close>

definition toDouble :: "rat \<Rightarrow> jsnum" where
  "toDouble q =
     (if q = of_int \<lfloor>q\<rfloor> \<and> \<bar>q\<bar> \<le> 9007199254740992 then Fin q
      else if 0 < q then toDoubleAbs q
      else negate (toDoubleAbs (- q)))"

text \<open>
  \<open>JArray\<close> is the object \<open>{ type: "IArray", elt: Map }\<close> the READ path looks into,
  \<open>JObject\<close> the object \<open>{ type: "IObject" }\<close>, \<open>JOther\<close> any other object.
\<close>

datatype jsval =
    JUndefined
  | JNull
  | JBool bool
  | JNum jsnum
  | JStr string
  | JArray "(jsval \<times> jsval) list"
  | JObject
  | JOther

datatype jstype = TUndefined | TBoolean | TNumber | TString | TObject

fun typeof :: "jsval \<Rightarrow> jstype" where
  "typeof JUndefined = TUndefined"
| "typeof JNull = TObject"
| "typeof (JBool b) = TBoolean"
| "typeof (JNum n) = TNumber"
| "typeof (JStr s) = TString"
| "typeof (JArray m) = TObject"
| "typeof JObject = TObject"
| "typeof JOther = TObject"

subsection \<open>\<open>Number(string)\<close>: the StringNumericLiteral grammar\<close>

text \<open>
  A character of the model is a code unit below 256. StrWhiteSpaceChar among them:
  space, TAB, LF, VT, FF, CR and the no-break space U+00A0.
\<close>

definition isWhiteSpace :: "char \<Rightarrow> bool" where
  "isWhiteSpace c =
     (c = CHR '' '' \<or> c = CHR 0x09 \<or> c = CHR 0x0A \<or> c = CHR 0x0B \<or> c = CHR 0x0C \<or> c = CHR 0x0D
      \<or> c = CHR 0xA0)"

definition trim :: "string \<Rightarrow> string" where
  "trim s = rev (dropWhile isWhiteSpace (rev (dropWhile isWhiteSpace s)))"

text \<open>The value of a digit in bases up to 16; 16 for a character that is no digit.\<close>

definition digitVal :: "char \<Rightarrow> nat" where
  "digitVal c =
     (let n = (of_char c :: nat) in
      if 48 \<le> n \<and> n \<le> 57 then n - 48
      else if 97 \<le> n \<and> n \<le> 102 then n - 87
      else if 65 \<le> n \<and> n \<le> 70 then n - 55
      else 16)"

definition isDigit :: "nat \<Rightarrow> char \<Rightarrow> bool" where
  "isDigit b c = (digitVal c < b)"

definition radixValue :: "nat \<Rightarrow> string \<Rightarrow> nat" where
  "radixValue b ds = foldl (\<lambda>a c. a * b + digitVal c) 0 ds"

definition digitString :: "nat \<Rightarrow> string \<Rightarrow> bool" where
  "digitString b ds = (ds \<noteq> [] \<and> list_all (isDigit b) ds)"

definition scale10 :: "rat \<Rightarrow> int \<Rightarrow> rat" where
  "scale10 m e = (if 0 \<le> e then m * 10 ^ nat e else m / 10 ^ nat (- e))"

text \<open>ExponentPart, optional, which must use up the rest of the literal.\<close>

definition parseExponent :: "string \<Rightarrow> int option" where
  "parseExponent r =
     (case r of
        [] \<Rightarrow> Some 0
      | c # r1 \<Rightarrow>
          if c = CHR ''e'' \<or> c = CHR ''E'' then
            (case r1 of
               [] \<Rightarrow> None
             | d # r2 \<Rightarrow>
                 if d = CHR ''+'' then
                   (if digitString 10 r2 then Some (int (radixValue 10 r2)) else None)
                 else if d = CHR ''-'' then
                   (if digitString 10 r2 then Some (- int (radixValue 10 r2)) else None)
                 else if digitString 10 r1 then Some (int (radixValue 10 r1))
                 else None)
          else None)"

text \<open>
  StrUnsignedDecimalLiteral: \<open>Infinity\<close>, digits with an optional fraction and
  exponent, or a fraction that starts with the point. The value of the literal is
  rounded to a double.
\<close>

definition parseUnsignedDecimal :: "string \<Rightarrow> jsnum option" where
  "parseUnsignedDecimal s =
     (if s = ''Infinity'' then Some PosInf
      else
        let ip = takeWhile (isDigit 10) s; r = dropWhile (isDigit 10) s in
        (case r of
           [] \<Rightarrow> if ip = [] then None else Some (toDouble (of_nat (radixValue 10 ip)))
         | c # r1 \<Rightarrow>
             if c = CHR ''.'' then
               (let fp = takeWhile (isDigit 10) r1; r2 = dropWhile (isDigit 10) r1 in
                if ip = [] \<and> fp = [] then None
                else
                  (case parseExponent r2 of
                     None \<Rightarrow> None
                   | Some e \<Rightarrow>
                       Some (toDouble (scale10 (of_nat (radixValue 10 (ip @ fp))) (e - int (length fp))))))
             else if ip = [] then None
             else
               (case parseExponent r of
                  None \<Rightarrow> None
                | Some e \<Rightarrow> Some (toDouble (scale10 (of_nat (radixValue 10 ip)) e)))))"

definition orNaN :: "jsnum option \<Rightarrow> jsnum" where
  "orNaN r = (case r of None \<Rightarrow> NaN | Some n \<Rightarrow> n)"

definition nonDecimal :: "nat \<Rightarrow> string \<Rightarrow> jsnum" where
  "nonDecimal b ds = (if digitString b ds then toDouble (of_nat (radixValue b ds)) else NaN)"

text \<open>
  StringToNumber: white space is trimmed, the empty string is 0, the prefixes
  \<open>0x\<close>, \<open>0o\<close>, \<open>0b\<close> select a base and take no sign, everything else is a signed
  decimal literal, and a string outside the grammar is NaN. A leading zero does not
  select a base: \<open>Number("010")\<close> is 10.
\<close>

definition StringToNumber :: "string \<Rightarrow> jsnum" where
  "StringToNumber s0 =
     (let s = trim s0 in
      if s = [] then Fin 0
      else if take 2 s = ''0x'' \<or> take 2 s = ''0X'' then nonDecimal 16 (drop 2 s)
      else if take 2 s = ''0o'' \<or> take 2 s = ''0O'' then nonDecimal 8 (drop 2 s)
      else if take 2 s = ''0b'' \<or> take 2 s = ''0B'' then nonDecimal 2 (drop 2 s)
      else if hd s = CHR ''+'' then orNaN (parseUnsignedDecimal (tl s))
      else if hd s = CHR ''-'' then negate (orNaN (parseUnsignedDecimal (tl s)))
      else orNaN (parseUnsignedDecimal s))"

subsection \<open>The conversions \<open>Number\<close>, \<open>Boolean\<close>, \<open>String\<close> and \<open>Math.trunc\<close>\<close>

fun js_Number :: "jsval \<Rightarrow> jsnum" where
  "js_Number JUndefined = NaN"
| "js_Number JNull = Fin 0"
| "js_Number (JBool b) = Fin (if b then 1 else 0)"
| "js_Number (JNum n) = n"
| "js_Number (JStr s) = StringToNumber s"
| "js_Number (JArray m) = NaN"
| "js_Number JObject = NaN"
| "js_Number JOther = NaN"

fun js_Boolean :: "jsval \<Rightarrow> bool" where
  "js_Boolean JUndefined = False"
| "js_Boolean JNull = False"
| "js_Boolean (JBool b) = b"
| "js_Boolean (JNum n) = (n \<noteq> Fin 0 \<and> n \<noteq> NegZero \<and> n \<noteq> NaN)"
| "js_Boolean (JStr s) = (s \<noteq> [])"
| "js_Boolean (JArray m) = True"
| "js_Boolean JObject = True"
| "js_Boolean JOther = True"

text \<open>
  \<open>String(v)\<close>. The decimal text of a double (\<open>Number::toString\<close>) is a parameter.
\<close>

fun js_String :: "(jsnum \<Rightarrow> string) \<Rightarrow> jsval \<Rightarrow> string" where
  "js_String ns JUndefined = ''undefined''"
| "js_String ns JNull = ''null''"
| "js_String ns (JBool b) = (if b then ''true'' else ''false'')"
| "js_String ns (JNum n) = ns n"
| "js_String ns (JStr s) = s"
| "js_String ns (JArray m) = ''[object Object]''"
| "js_String ns JObject = ''[object Object]''"
| "js_String ns JOther = ''[object Object]''"

fun math_trunc :: "jsnum \<Rightarrow> jsnum" where
  "math_trunc (Fin q) =
     (if 0 \<le> q then Fin (of_int \<lfloor>q\<rfloor>)
      else if - 1 < q then NegZero
      else Fin (of_int \<lceil>q\<rceil>))"
| "math_trunc NegZero = NegZero"
| "math_trunc NaN = NaN"
| "math_trunc PosInf = PosInf"
| "math_trunc NegInf = NegInf"

section \<open>AST nodes, stack items, state\<close>

text \<open>
  An AST node of the parser: its \<open>kind\<close> tag and the fields the evaluator reads.
  A field the node does not have is \<open>None\<close> (\<open>JUndefined\<close> for \<open>value\<close> and \<open>name\<close>,
  \<open>False\<close> for \<open>byref\<close>); a missing \<open>offset\<close> is the empty subscript \<open>$a[]\<close>.
\<close>

datatype node =
  Node (kind: string) (nvalue: jsval) (nname: jsval) (byref: bool)
       (expression: "node option") (what: "node option") (offset: "node option")

text \<open>
  A location (\<open>ILocation\<close>, whose declaration is in \<open>variable.ts\<close>): the fields
  offset.ts names. \<open>ltype\<close> is the field \<open>type\<close>, \<open>loffset\<close> the field \<open>offset\<close>.
\<close>

record location =
  ltype :: jsval
  idx :: nat
  vstoreId :: nat
  loffset :: jsval

text \<open>\<open>IStkNode\<close>: every field is optional.\<close>

record stkitem =
  val :: jsval
  loc :: "location option"
  inst :: "string option"
  node :: "node option"

definition emptyItem :: stkitem where
  "emptyItem = \<lparr>val = JUndefined, loc = None, inst = None, node = None\<rparr>"

definition valItem :: "jsval \<Rightarrow> stkitem" where
  "valItem v = emptyItem\<lparr>val := v\<rparr>"

definition nodeItem :: "node option \<Rightarrow> string option \<Rightarrow> stkitem" where
  "nodeItem n i = emptyItem\<lparr>inst := i, node := n\<rparr>"

text \<open>
  What \<open>console.error\<close> prints, one constructor for each message of the source, with
  the value that is appended to the text:
  \<^item> \<open>NoticeUndefinedVariable\<close>: "Notice: Undefined variable " and a name;
  \<^item> \<open>WarningIllegalOffsetType\<close>: "Warning: Illegal offset type " and the key;
  \<^item> \<open>NoticeUninitializedStringOffset\<close>: "Notice: Uninitialized string offset " and the key;
  \<^item> \<open>NoticeUndefinedOffset\<close>: "Notice: Undefined offset: " and the key;
  \<^item> \<open>WarningScalarAsArray\<close>: "Warning:  Cannot use a scalar value as an array";
  \<^item> \<open>WarningIllegalStringOffset\<close>: "Warning: Illegal string offset " and the key.
\<close>

datatype diag =
    NoticeUndefinedVariable jsval
  | WarningIllegalOffsetType jsval
  | NoticeUninitializedStringOffset jsval
  | NoticeUndefinedOffset jsval
  | WarningScalarAsArray
  | WarningIllegalStringOffset jsval

text \<open>
  A thrown value: \<open>Error msg\<close> for \<open>throw new Error(msg)\<close>, \<open>TypeError\<close> for what
  the JavaScript runtime throws when a property of \<open>undefined\<close> is read.
\<close>

datatype error = Error string | TypeError

text \<open>
  The field \<open>env\<close> of an \<open>Env\<close> (environment.ts): the table of the environments by
  index. Of an environment the model keeps the slot store of its bindings.
\<close>

type_synonym vstore = "nat \<Rightarrow> jsval option"

type_synonym env = "nat \<Rightarrow> vstore option"

record state =
  stk :: "stkitem list"
  env :: env
  console :: "diag list"

text \<open>A call returns or throws; what it did to the state before throwing stays done.\<close>

datatype result = Ok state | Throw error state

text \<open>
  The evaluators of \<open>assign.ts\<close>, \<open>variable.ts\<close>, \<open>array.ts\<close> and \<open>global.ts\<close>, and
  \<open>Number::toString\<close>, are parameters of the model: any function from the state to
  a result, which covers whatever they do to the stack, the environment and the
  console, the calls they make back into \<open>evaluate\<close> included.
\<close>

record host =
  evaluateAssign :: "state \<Rightarrow> result"
  evaluateVariable :: "state \<Rightarrow> result"
  evaluateArray :: "state \<Rightarrow> result"
  evaluateGlobal :: "state \<Rightarrow> result"
  numberToString :: "jsnum \<Rightarrow> string"

definition push :: "stkitem \<Rightarrow> state \<Rightarrow> state" where
  "push it s = s\<lparr>stk := it # stk s\<rparr>"

definition logd :: "diag list \<Rightarrow> state \<Rightarrow> state" where
  "logd ds s = s\<lparr>console := console s @ ds\<rparr>"

section \<open>\<open>evaluate\<close> and \<open>run\<close> (evaluator.ts)\<close>

text \<open>
  Lines 106-135: the switch on \<open>expr.expression.kind\<close> of an \<open>expressionstatement\<close>;
  its \<open>default\<close> does nothing.
\<close>

definition evaluateStatement :: "host \<Rightarrow> node \<Rightarrow> state \<Rightarrow> result" where
  "evaluateStatement h expr s =
     (case expression expr of
        None \<Rightarrow> Throw TypeError s
      | Some e \<Rightarrow>
          if kind e = ''array'' \<or> kind e = ''number'' \<or> kind e = ''string'' \<or> kind e = ''boolean''
          then Ok s
          else if kind e = ''assign'' then evaluateAssign h (push (nodeItem (Some e) None) s)
          else if kind e = ''variable'' then evaluateVariable h (push (nodeItem (Some e) None) s)
          else Ok s)"

text \<open>
  Lines 103-181: the item on top is popped and its node dispatched on. There is no
  branch for \<open>offsetlookup\<close>: \<open>evaluateOffset\<close> is called by the other evaluators.
\<close>

definition evaluate :: "host \<Rightarrow> state \<Rightarrow> result" where
  "evaluate h s =
     (case stk s of
        [] \<Rightarrow> Throw TypeError s
      | item # rest \<Rightarrow>
          let s' = s\<lparr>stk := rest\<rparr> in
          (case node item of
             None \<Rightarrow> Throw TypeError s'
           | Some expr \<Rightarrow>
               if kind expr = ''expressionstatement'' then evaluateStatement h expr s'
               else if kind expr = ''boolean'' then
                 Ok (push (valItem (JBool (js_Boolean (nvalue expr)))) s')
               else if kind expr = ''number'' then
                 Ok (push (valItem (JNum (js_Number (nvalue expr)))) s')
               else if kind expr = ''string'' then
                 Ok (push (valItem (JStr (js_String (numberToString h) (nvalue expr)))) s')
               else if kind expr = ''assign'' then
                 evaluateAssign h (push (nodeItem (Some expr) None) s')
               else if kind expr = ''variable'' then
                 evaluateVariable h (push (nodeItem (Some expr) None) s')
               else if kind expr = ''array'' then
                 evaluateArray h (push (nodeItem (Some expr) None) s')
               else if kind expr = ''global'' then
                 evaluateGlobal h (push (nodeItem (Some expr) None) s')
               else Throw (Error (''Eval Error: Unknown expression type: '' @ kind expr)) s'))"

fun run_children :: "host \<Rightarrow> node list \<Rightarrow> state \<Rightarrow> result" where
  "run_children h [] s = Ok s"
| "run_children h (child # cs) s =
     (case evaluate h (push (nodeItem (Some child) None) s) of
        Ok s' \<Rightarrow> run_children h cs s'
      | Throw e s' \<Rightarrow> Throw e s')"


section \<open>\<open>evaluateOffset\<close> (evaluation/offset.ts)\<close>

subsection \<open>Primitives on the offset key\<close>

text \<open>The test of the regular expression \<open>/^(|[-]?0|-[1-9][0-9]*)$/\<close>.\<close>

definition validDecInt :: "string \<Rightarrow> bool" where
  "validDecInt s =
     (s = [] \<or> s = ''0'' \<or> s = ''-0'' \<or>
      (case s of
         c # d # ds \<Rightarrow> c = CHR ''-'' \<and> isDigit 10 d \<and> d \<noteq> CHR ''0'' \<and> list_all (isDigit 10) ds
       | _ \<Rightarrow> False))"

text \<open>\<open>offsetName < 0\<close>: the key is converted to a number; NaN compares false.\<close>

definition ltZero :: "jsval \<Rightarrow> bool" where
  "ltZero v = (case js_Number v of Fin q \<Rightarrow> q < 0 | NegInf \<Rightarrow> True | _ \<Rightarrow> False)"

text \<open>
  \<open>offsetName += str.length\<close>: the sum of two doubles, rounded. The source runs it only
  under \<open>offsetName < 0\<close>, in the string branch, where the key is a number (a string
  key was replaced by 0 just before); the last equation is never reached.
\<close>

fun addLength :: "jsval \<Rightarrow> nat \<Rightarrow> jsval" where
  "addLength (JNum (Fin q)) n = JNum (toDouble (q + of_nat n))"
| "addLength (JNum NegZero) n = JNum (toDouble (of_nat n))"
| "addLength (JNum NaN) n = JNum NaN"
| "addLength (JNum PosInf) n = JNum PosInf"
| "addLength (JNum NegInf) n = JNum NegInf"
| "addLength v n = v"

text \<open>
  \<open>str[offsetName]\<close> on a primitive string: the key is turned into a property name,
  and only the names \<open>"0"\<close> ... \<open>"length - 1"\<close> hold a character. The keys that reach
  this point are numbers or \<open>undefined\<close>.
\<close>

fun strIndex :: "string \<Rightarrow> jsval \<Rightarrow> jsval" where
  "strIndex str (JNum (Fin q)) =
     (if 0 \<le> q \<and> q = of_int \<lfloor>q\<rfloor> \<and> nat \<lfloor>q\<rfloor> < length str then JStr [str ! nat \<lfloor>q\<rfloor>]
      else JUndefined)"
| "strIndex str (JNum NegZero) = (if str = [] then JUndefined else JStr [hd str])"
| "strIndex str v = JUndefined"

text \<open>
  Modelled from the spec: the map \<open>elt\<close> of an array value (\<open>utils/map.ts\<close> and
  \<open>array.ts\<close> are not among the sources), "an ordered key to value mapping, keys
  unique". \<open>get\<close> returns \<open>undefined\<close> for a key that is not there, and 0 and -0 are
  one key.
\<close>

definition canonKey :: "jsval \<Rightarrow> jsval" where
  "canonKey k = (if k = JNum NegZero then JNum (Fin 0) else k)"

fun array_get :: "(jsval \<times> jsval) list \<Rightarrow> jsval \<Rightarrow> jsval" where
  "array_get [] k = JUndefined"
| "array_get ((k', v) # m) k = (if canonKey k' = canonKey k then v else array_get m k)"

subsection \<open>Key normalization, as written in the READ branch (lines 68-94)\<close>

definition normalizeOffsetRead :: "jsval \<Rightarrow> jsval \<times> diag list" where
  "normalizeOffsetRead keyVal =
     (if keyVal \<noteq> JUndefined then
        (let illegal = (typeof keyVal \<noteq> TNumber \<and> typeof keyVal \<noteq> TBoolean \<and> typeof keyVal \<noteq> TString);
             offsetName = (if illegal then JStr [] else keyVal)
         in ((case offsetName of
                JBool b \<Rightarrow> JNum (js_Number offsetName)
              | JStr str \<Rightarrow> if validDecInt str then JNum (js_Number offsetName) else offsetName
              | JNum x \<Rightarrow> JNum (math_trunc x)
              | _ \<Rightarrow> offsetName),
             if illegal then [WarningIllegalOffsetType keyVal] else []))
      else (keyVal, []))"

subsection \<open>Key normalization, as written in the WRITE branch (lines 156-186)\<close>

text \<open>The second argument is \<open>offsetNode.node.offset.name\<close>, printed for an undefined key.\<close>

definition normalizeOffsetWrite :: "jsval \<Rightarrow> jsval \<Rightarrow> jsval \<times> diag list" where
  "normalizeOffsetWrite keyVal offName =
     (if keyVal \<noteq> JUndefined then
        (let illegal = (typeof keyVal \<noteq> TNumber \<and> typeof keyVal \<noteq> TBoolean \<and> typeof keyVal \<noteq> TString);
             offsetName = (if illegal then JStr [] else keyVal)
         in ((case offsetName of
                JBool b \<Rightarrow> JNum (js_Number offsetName)
              | JStr str \<Rightarrow> if validDecInt str then JNum (js_Number offsetName) else offsetName
              | JNum x \<Rightarrow> JNum (math_trunc x)
              | _ \<Rightarrow> offsetName),
             if illegal then [WarningIllegalOffsetType keyVal] else []))
      else (JStr [], [NoticeUndefinedVariable offName]))"

subsection \<open>READ\<close>

text \<open>Lines 99-119: the base is a string.\<close>

definition readStringOffset :: "node \<Rightarrow> string \<Rightarrow> jsval \<Rightarrow> state \<Rightarrow> result" where
  "readStringOffset w str offsetName s =
     (if byref w then
        Throw (Error ''Fatal error:  Uncaught Error: Cannot create references to/from string offsets.'') s
      else
        let o1 = (if typeof offsetName = TString then JNum (Fin 0) else offsetName);
            o2 = (if ltZero o1 then addLength o1 (length str) else o1);
            c = strIndex str o2
        in Ok (push (valItem c)
                 (if c = JUndefined then logd [NoticeUninitializedStringOffset o2] s else s)))"

text \<open>Lines 120-129: the base is an array.\<close>

definition readArrayOffset :: "(jsval \<times> jsval) list \<Rightarrow> jsval \<Rightarrow> state \<Rightarrow> result" where
  "readArrayOffset elt offsetName s =
     (if elt = [] \<or> array_get elt offsetName = JUndefined then
        Ok (push (valItem JNull) (logd [NoticeUndefinedOffset offsetName] s))
      else Ok (push (valItem (array_get elt offsetName)) s))"

text \<open>
  Lines 65-134: the base is neither \<open>undefined\<close> nor \<open>null\<close>; the key is evaluated,
  popped and normalized, then the type of the base decides. The branch of an object
  (\<open>IObject\<close>) is empty in the source: it returns and pushes nothing.
\<close>

definition evaluateOffsetReadKey :: "host \<Rightarrow> node \<Rightarrow> jsval \<Rightarrow> state \<Rightarrow> result" where
  "evaluateOffsetReadKey h n derefVal s4 =
     (case evaluate h s4 of
        Throw e s' \<Rightarrow> Throw e s'
      | Ok s5 \<Rightarrow>
          (case stk s5 of
             [] \<Rightarrow> Throw TypeError s5
           | keyNode # rest5 \<Rightarrow>
               let offsetName = fst (normalizeOffsetRead (val keyNode));
                   s6 = logd (snd (normalizeOffsetRead (val keyNode))) (s5\<lparr>stk := rest5\<rparr>)
               in (case derefVal of
                     JBool b \<Rightarrow> Ok (push (valItem JNull) s6)
                   | JNum x \<Rightarrow> Ok (push (valItem JNull) s6)
                   | JStr str \<Rightarrow>
                       (case what n of
                          None \<Rightarrow> Throw TypeError s6
                        | Some w \<Rightarrow> readStringOffset w str offsetName s6)
                   | JArray elt \<Rightarrow> readArrayOffset elt offsetName s6
                   | JObject \<Rightarrow> Ok s6
                   | _ \<Rightarrow>
                       Throw (Error ''Eval error: undefined dereferencable-expression type in reading offset'') s6)))"

text \<open>Lines 40-64: push the key and the base, evaluate the base, pop it.\<close>

definition evaluateOffsetRead :: "host \<Rightarrow> node \<Rightarrow> state \<Rightarrow> result" where
  "evaluateOffsetRead h n s0 =
     (let s1 = (case offset n of
                  Some off \<Rightarrow> push (nodeItem (Some off) (Some ''READ'')) s0
                | None \<Rightarrow> s0);
          s2 = push (nodeItem (what n) (Some ''READ'')) s1
      in (case evaluate h s2 of
            Throw e s' \<Rightarrow> Throw e s'
          | Ok s3 \<Rightarrow>
              (case stk s3 of
                 [] \<Rightarrow> Throw TypeError s3
               | derefNode # rest3 \<Rightarrow>
                   let s4 = s3\<lparr>stk := rest3\<rparr> in
                   if val derefNode = JUndefined then
                     (case what n of
                        None \<Rightarrow> Throw TypeError s4
                      | Some w \<Rightarrow>
                          Ok (push (valItem JNull) (logd [NoticeUndefinedVariable (nname w)] s4)))
                   else if val derefNode = JNull then Ok (push (valItem JNull) s4)
                   else evaluateOffsetReadKey h n (val derefNode) s4)))"

subsection \<open>WRITE\<close>

text \<open>
  Lines 197-224: \<open>typeof derefNode.loc.type\<close> is \<open>"string"\<close>. A base taken by
  reference throws at line 200. Otherwise line 207 calls \<open>this.env.get\<close>; \<open>this.env\<close>
  is the \<open>Env\<close> the constructor made (evaluator.ts:89), and the class \<open>Env\<close>
  (environment.ts:43-69) has the fields \<open>env\<close> and \<open>idx\<close> and no method: the call
  throws a TypeError. Lines 208-224 (the test of the slot's value, the adjustment of
  a negative offset, the push of the location with its offset) never run, and the
  replacement of a string key by 0 at lines 204-206 has no effect that is seen.
\<close>

definition writeStringOffset :: "node \<Rightarrow> state \<Rightarrow> result" where
  "writeStringOffset w s =
     (if byref w then
        Throw (Error ''Fatal error:  Uncaught Error: Cannot create references to/from string offsets.'') s
      else Throw TypeError s)"

text \<open>
  Lines 191-237: the branches on \<open>derefNode.loc.type\<close>, in the order of the source.
  The branch of \<open>"array"\<close> pushes the item \<open>{}\<close>; those of \<open>"object"\<close> and \<open>"null"\<close>
  are empty. None of the branches that can run reads the key.
\<close>

definition writeDispatch :: "node \<Rightarrow> stkitem \<Rightarrow> state \<Rightarrow> result" where
  "writeDispatch n derefNode s =
     (case loc derefNode of
        None \<Rightarrow> Throw TypeError s
      | Some l \<Rightarrow>
          if typeof (ltype l) = TBoolean \<or> typeof (ltype l) = TNumber then
            Ok (push emptyItem (logd [WarningScalarAsArray] s))
          else if typeof (ltype l) = TString then
            (case what n of
               None \<Rightarrow> Throw TypeError s
             | Some w \<Rightarrow> writeStringOffset w s)
          else if ltype l = JStr ''array'' then Ok (push emptyItem s)
          else if ltype l = JStr ''object'' then Ok s
          else if ltype l = JStr ''null'' then Ok s
          else Throw (Error ''Eval error: undefined type dereferencable-expression in writing offset'') s)"

text \<open>
  Lines 136-190: push the key and the base, evaluate the base, then the key, which
  is popped and normalized (0 stands for an absent key); what the normalization
  prints is the only trace of the key.
\<close>

definition evaluateOffsetWrite :: "host \<Rightarrow> node \<Rightarrow> state \<Rightarrow> result" where
  "evaluateOffsetWrite h n s0 =
     (let s1 = (case offset n of
                  Some off \<Rightarrow> push (nodeItem (Some off) (Some ''READ'')) s0
                | None \<Rightarrow> s0);
          s2 = push (nodeItem (what n) (Some ''WRITE'')) s1
      in (case evaluate h s2 of
            Throw e s' \<Rightarrow> Throw e s'
          | Ok s3 \<Rightarrow>
              (case stk s3 of
                 [] \<Rightarrow> Throw TypeError s3
               | derefNode # rest3 \<Rightarrow>
                   let s4 = s3\<lparr>stk := rest3\<rparr> in
                   (case offset n of
                      None \<Rightarrow> writeDispatch n derefNode s4
                    | Some off \<Rightarrow>
                        (case evaluate h s4 of
                           Throw e s' \<Rightarrow> Throw e s'
                         | Ok s5 \<Rightarrow>
                             (case stk s5 of
                                [] \<Rightarrow> Throw TypeError s5
                              | keyNode # rest5 \<Rightarrow>
                                  writeDispatch n derefNode
                                    (logd (snd (normalizeOffsetWrite (val keyNode) (nname off)))
                                       (s5\<lparr>stk := rest5\<rparr>))))))))"

text \<open>\<open>"..." + inst\<close>: an absent \<open>inst\<close> prints as \<open>undefined\<close>.\<close>

definition instText :: "string option \<Rightarrow> string" where
  "instText i = (case i of None \<Rightarrow> ''undefined'' | Some t \<Rightarrow> t)"

definition evaluateOffset :: "host \<Rightarrow> state \<Rightarrow> result" where
  "evaluateOffset h s =
     (case stk s of
        [] \<Rightarrow> Throw TypeError s
      | offsetNode # rest \<Rightarrow>
          let s0 = s\<lparr>stk := rest\<rparr> in
          (case node offsetNode of
             None \<Rightarrow> Throw TypeError s0
           | Some n \<Rightarrow>
               if kind n \<noteq> ''offsetlookup'' then
                 Throw (Error (''Eval Error: Evaluate wrong AST node: '' @ kind n @ '', should be offsetlookup'')) s0
               else if inst offsetNode \<noteq> Some ''WRITE'' \<and> offset n = None then
                 Throw (Error ''Fatal error:  Cannot use [] for reading.'') s0
               else if inst offsetNode = Some ''READ'' then evaluateOffsetRead h n s0
               else if inst offsetNode = Some ''WRITE'' then evaluateOffsetWrite h n s0
               else Throw (Error (''Eval error: '' @ instText (inst offsetNode) @ '' instruction in offset Node'')) s0))"

section \<open>Inputs and reference notions for the statements\<close>

text \<open>The state a new \<open>Evaluator\<close> starts from: an empty stack, the global environment 0.\<close>

definition newState :: state where
  "newState = \<lparr>stk = [], env = (\<lambda>i. if i = 0 then Some (\<lambda>v. None) else None), console = []\<rparr>"

text \<open>A location in the global environment, with the given tag in its field \<open>type\<close>.\<close>

definition locOf :: "string \<Rightarrow> location" where
  "locOf tag = \<lparr>ltype = JStr tag, idx = 0, vstoreId = 0, loffset = JUndefined\<rparr>"

text \<open>AST nodes as the parser builds them; the value of a literal is its source text.\<close>

definition numberNode :: "string \<Rightarrow> node" where
  "numberNode raw = Node ''number'' (JStr raw) JUndefined False None None None"

definition stringNode :: "string \<Rightarrow> node" where
  "stringNode raw = Node ''string'' (JStr raw) JUndefined False None None None"

definition booleanNode :: "bool \<Rightarrow> node" where
  "booleanNode b = Node ''boolean'' (JBool b) JUndefined False None None None"

definition variableNode :: "string \<Rightarrow> node" where
  "variableNode nm = Node ''variable'' JUndefined (JStr nm) False None None None"

text \<open>The variable taken by reference, \<open>&$nm\<close>.\<close>

definition refVariableNode :: "string \<Rightarrow> node" where
  "refVariableNode nm = Node ''variable'' JUndefined (JStr nm) True None None None"

definition offsetlookupNode :: "node \<Rightarrow> node option \<Rightarrow> node" where
  "offsetlookupNode w off = Node ''offsetlookup'' JUndefined JUndefined False None (Some w) off"

definition statementNode :: "node \<Rightarrow> node" where
  "statementNode e = Node ''expressionstatement'' JUndefined JUndefined False (Some e) None None"

definition callNode :: node where
  "callNode = Node ''call'' JUndefined JUndefined False None None None"

definition echoNode :: node where
  "echoNode = Node ''echo'' JUndefined JUndefined False None None None"

text \<open>
  A stand-in for the evaluators that are not among the sources, for concrete inputs
  only: \<open>evaluateVariable\<close> replaces the pending node on top of the stack by the item
  \<open>d\<close> (the value or the location the variable resolves to); the others do nothing.
\<close>

definition hostReturning :: "stkitem \<Rightarrow> host" where
  "hostReturning d =
     \<lparr>evaluateAssign = Ok,
      evaluateVariable = (\<lambda>s. Ok (s\<lparr>stk := d # tl (stk s)\<rparr>)),
      evaluateArray = Ok,
      evaluateGlobal = Ok,
      numberToString = (\<lambda>n. [])\<rparr>"


text \<open>The number a string of decimal digits denotes, by position.\<close>

fun decimalOf :: "string \<Rightarrow> nat" where
  "decimalOf [] = 0"
| "decimalOf (c # cs) = digitVal c * 10 ^ length cs + decimalOf cs"

text \<open>
  The number a string of the pattern \<open>^(|[-]?0|-[1-9][0-9]*)$\<close> denotes: the empty
  string and \<open>0\<close> are 0, \<open>-0\<close> is negative zero, \<open>-d...\<close> is minus the double
  nearest to the digits.
\<close>

definition decIntValue :: "string \<Rightarrow> jsnum" where
  "decIntValue str =
     (if str = ''-0'' then NegZero
      else if str = [] \<or> str = ''0'' then Fin 0
      else negate (toDouble (of_nat (decimalOf (tl str)))))"

text \<open>The integer a number is, when it is one; negative zero is 0.\<close>

fun integerKey :: "jsnum \<Rightarrow> int option" where
  "integerKey (Fin q) = (if q = of_int \<lfloor>q\<rfloor> then Some \<lfloor>q\<rfloor> else None)"
| "integerKey NegZero = Some 0"
| "integerKey NaN = None"
| "integerKey PosInf = None"
| "integerKey NegInf = None"

section \<open>Auxiliary facts\<close>

lemmas number_defs = StringToNumber_def trim_def isWhiteSpace_def nonDecimal_def digitString_def
  isDigit_def digitVal_def radixValue_def parseUnsignedDecimal_def orNaN_def parseExponent_def
  scale10_def toDouble_def

lemmas item_defs = push_def logd_def valItem_def nodeItem_def emptyItem_def

lemmas node_defs = numberNode_def stringNode_def booleanNode_def variableNode_def
  refVariableNode_def offsetlookupNode_def statementNode_def callNode_def echoNode_def

lemmas offset_defs = evaluateOffset_def evaluateOffsetRead_def evaluateOffsetReadKey_def
  evaluateOffsetWrite_def writeDispatch_def writeStringOffset_def readStringOffset_def
  readArrayOffset_def normalizeOffsetRead_def normalizeOffsetWrite_def
  validDecInt_def ltZero_def instText_def

subsection \<open>Doubles\<close>

lemma toDouble_int: "\<bar>z\<bar> \<le> 9007199254740992 \<Longrightarrow> toDouble (of_int z) = Fin (of_int z)"
proof -
  assume "\<bar>z\<bar> \<le> 9007199254740992"
  then have "\<bar>rat_of_int z\<bar> \<le> 9007199254740992"
    by (metis of_int_abs of_int_le_iff of_int_numeral)
  then show ?thesis
    by (simp add: toDouble_def)
qed

lemma pow2_pos: "0 < pow2 k"
  by (simp add: pow2_def)

lemma pow2_mono: "a \<le> b \<Longrightarrow> pow2 a \<le> pow2 b"
proof -
  assume ab: "a \<le> b"
  have e: "\<And>k. pow2 k = 2 powi k"
    by (simp add: pow2_def power_int_def power_divide)
  show ?thesis
    unfolding e using ab by (intro power_int_increasing) simp_all
qed

lemma roundHalfEven_ge: "1 \<le> q \<Longrightarrow> 1 \<le> roundHalfEven q"
proof -
  assume "1 \<le> q"
  then have "1 \<le> \<lfloor>q\<rfloor>"
    by (simp add: le_floor_iff)
  then show ?thesis
    by (simp add: roundHalfEven_def Let_def)
qed

lemma floorLog2_int: "1 \<le> z \<Longrightarrow> pow2 (floorLog2 (of_int z)) \<le> of_int z"
proof -
  assume z: "1 \<le> z"
  then have b: "1 \<le> bitlen z"
    by (simp add: bitlen_alt_def)
  have "(2::int) ^ nat (bitlen z - 1) \<le> z"
    using bitlen_bounds [of z] z by simp
  then have "rat_of_int (2 ^ nat (bitlen z - 1)) \<le> of_int z"
    by (simp only: of_int_le_iff)
  then have "pow2 (bitlen z - 1) \<le> of_int z"
    using b by (simp add: pow2_def)
  moreover have "bitlen 1 = 1"
    by (simp add: bitlen_alt_def)
  ultimately show ?thesis
    by (simp add: floorLog2_def Let_def)
qed

lemma toDoubleAbs_int_pos:
  assumes "1 \<le> z"
  shows "toDoubleAbs (of_int z) = PosInf \<or> (\<exists>r. 0 < r \<and> toDoubleAbs (of_int z) = Fin r)"
proof -
  define p where "p = max (floorLog2 (rat_of_int z) - 52) (- 1074)"
  have "pow2 p \<le> of_int z"
  proof (cases "floorLog2 (rat_of_int z) - 52 \<le> - 1074")
    case True
    then have "p = - 1074"
      by (simp add: p_def)
    then have "pow2 p \<le> 1"
      by (simp add: pow2_def)
    also have "1 \<le> rat_of_int z"
      using assms by simp
    finally show ?thesis .
  next
    case False
    then have "p \<le> floorLog2 (rat_of_int z)"
      by (simp add: p_def)
    then have "pow2 p \<le> pow2 (floorLog2 (rat_of_int z))"
      by (rule pow2_mono)
    also have "\<dots> \<le> of_int z"
      using assms by (rule floorLog2_int)
    finally show ?thesis .
  qed
  then have "1 \<le> rat_of_int z / pow2 p"
    using pow2_pos [of p] by (simp add: le_divide_eq)
  then have "1 \<le> roundHalfEven (rat_of_int z / pow2 p)"
    by (rule roundHalfEven_ge)
  then have "0 < rat_of_int (roundHalfEven (rat_of_int z / pow2 p)) * pow2 p"
    using pow2_pos [of p] by simp
  then show ?thesis
    unfolding toDoubleAbs_def Let_def p_def [symmetric] by auto
qed

lemma toDouble_neg_int:
  assumes "z < 0"
  shows "toDouble (of_int z) = NegInf \<or> (\<exists>r. r < 0 \<and> toDouble (of_int z) = Fin r)"
proof (cases "\<bar>z\<bar> \<le> 9007199254740992")
  case True
  then show ?thesis
    using assms by (simp add: toDouble_int)
next
  case False
  then have "\<not> \<bar>rat_of_int z\<bar> \<le> 9007199254740992"
    by (metis of_int_abs of_int_le_iff of_int_numeral)
  then have t: "toDouble (of_int z) = negate (toDoubleAbs (of_int (- z)))"
    using assms by (simp add: toDouble_def)
  show ?thesis
    using toDoubleAbs_int_pos [of "- z"] assms unfolding t by auto
qed

text \<open>
  The integers up to \<open>2 ^ 53\<close>, which \<open>toDouble\<close> returns as they are, are what the
  rounding gives for them.
\<close>

lemma roundHalfEven_of_int: "roundHalfEven (of_int m) = m"
  by (simp add: roundHalfEven_def)

lemma toDoubleAbs_exact:
  assumes "0 < z" and "z \<le> 9007199254740992"
  shows "toDoubleAbs (of_int z) = Fin (of_int z)"
proof -
  have b1: "1 \<le> bitlen z"
    using assms(1) by (simp add: bitlen_alt_def)
  have "z < 2 ^ nat 54"
    using assms(2) by simp
  then have b2: "bitlen z \<le> 54"
    by (simp add: bitlen_le_iff_power)
  have "(2::int) ^ nat (bitlen z - 1) \<le> z"
    using bitlen_bounds [of z] assms(1) by simp
  then have "rat_of_int (2 ^ nat (bitlen z - 1)) \<le> of_int z"
    by (simp only: of_int_le_iff)
  then have "pow2 (bitlen z - 1) \<le> of_int z"
    using b1 by (simp add: pow2_def)
  moreover have "bitlen 1 = 1"
    by (simp add: bitlen_alt_def)
  ultimately have e: "floorLog2 (of_int z) = bitlen z - 1"
    by (simp add: floorLog2_def Let_def)
  define p where "p = bitlen z - 53"
  have p: "max (floorLog2 (rat_of_int z) - 52) (- 1074) = p"
    using b1 by (simp add: e p_def)
  have lt: "rat_of_int z < pow2 1024"
  proof -
    have "rat_of_int z \<le> 9007199254740992"
      using assms(2) by (metis of_int_le_iff of_int_numeral)
    also have "\<dots> < pow2 1024"
      by (simp add: pow2_def)
    finally show ?thesis .
  qed
  have r: "rat_of_int (roundHalfEven (rat_of_int z / pow2 p)) * pow2 p = of_int z"
  proof (cases "p \<le> 0")
    case True
    then have "rat_of_int z / pow2 p = of_int (z * 2 ^ nat (- p))"
      by (cases "p = 0") (simp_all add: pow2_def)
    then have "roundHalfEven (rat_of_int z / pow2 p) = z * 2 ^ nat (- p)"
      by (simp only: roundHalfEven_of_int)
    then show ?thesis
      using True by (cases "p = 0") (simp_all add: pow2_def)
  next
    case False
    then have "p = 1"
      using b2 by (simp add: p_def)
    then have "bitlen z = 54"
      by (simp add: p_def)
    then have "(2::int) ^ 53 \<le> z"
      using bitlen_bounds [of z] assms(1) by simp
    then have z: "z = 9007199254740992"
      using assms(2) by simp
    have "rat_of_int 9007199254740992 / 2 = of_int 4503599627370496"
      by simp
    then have "roundHalfEven (rat_of_int 9007199254740992 / 2) = 4503599627370496"
      by (simp only: roundHalfEven_of_int)
    then show ?thesis
      unfolding z \<open>p = 1\<close> by (simp add: pow2_def)
  qed
  show ?thesis
    unfolding toDoubleAbs_def Let_def p r using lt by simp
qed

text \<open>From \<open>2 ^ 1024\<close> on, the result is infinity.\<close>

lemma roundHalfEven_floor: "\<lfloor>q\<rfloor> \<le> roundHalfEven q"
  by (simp add: roundHalfEven_def Let_def)

lemma toDoubleAbs_overflow:
  assumes "2 ^ 1024 \<le> z"
  shows "toDoubleAbs (of_int z) = PosInf"
proof -
  have z: "0 < z"
    using assms by (rule less_le_trans [rotated]) simp
  then have b1: "1 \<le> bitlen z"
    by (simp add: bitlen_alt_def)
  have bb: "(2::int) ^ nat (bitlen z - 1) \<le> z" "z < 2 ^ nat (bitlen z)"
    using bitlen_bounds [of z] z by simp_all
  have "(2::int) ^ 1024 < 2 ^ nat (bitlen z)"
    using assms bb(2) by (rule le_less_trans)
  then have "1024 < nat (bitlen z)"
    by (rule power_less_imp_less_exp [rotated]) simp
  then have b2: "1025 \<le> bitlen z"
    by simp
  have "rat_of_int (2 ^ nat (bitlen z - 1)) \<le> of_int z"
    using bb(1) by (simp only: of_int_le_iff)
  then have le: "pow2 (bitlen z - 1) \<le> of_int z"
    using b1 by (simp add: pow2_def)
  moreover have "bitlen 1 = 1"
    by (simp add: bitlen_alt_def)
  ultimately have e: "floorLog2 (of_int z) = bitlen z - 1"
    by (simp add: floorLog2_def Let_def)
  define p where "p = bitlen z - 53"
  have p: "max (floorLog2 (rat_of_int z) - 52) (- 1074) = p"
    using b1 by (simp add: e p_def)
  have p0: "0 \<le> p"
    using b2 by (simp add: p_def)
  have n: "nat (bitlen z - 1) = 52 + nat p"
    using b2 by (simp add: p_def)
  have "pow2 (bitlen z - 1) = 2 ^ (52 + nat p)"
    using b1 by (simp add: pow2_def n)
  also have "\<dots> = 2 ^ 52 * pow2 p"
    using p0 by (simp only: power_add pow2_def if_True)
  also have "(2::rat) ^ 52 = pow2 52"
    by (simp add: pow2_def)
  finally have "pow2 52 * pow2 p = pow2 (bitlen z - 1)"
    by simp
  then have "pow2 52 \<le> rat_of_int z / pow2 p"
    using le pow2_pos [of p] by (simp add: le_divide_eq)
  then have "rat_of_int (2 ^ 52) \<le> rat_of_int z / pow2 p"
    by (simp add: pow2_def)
  then have "2 ^ 52 \<le> \<lfloor>rat_of_int z / pow2 p\<rfloor>"
    by (simp only: le_floor_iff)
  then have "2 ^ 52 \<le> roundHalfEven (rat_of_int z / pow2 p)"
    using roundHalfEven_floor [of "rat_of_int z / pow2 p"] by linarith
  then have "rat_of_int (2 ^ 52) \<le> rat_of_int (roundHalfEven (rat_of_int z / pow2 p))"
    by (simp only: of_int_le_iff)
  then have "pow2 52 * pow2 p \<le> rat_of_int (roundHalfEven (rat_of_int z / pow2 p)) * pow2 p"
    using pow2_pos [of p] by (simp add: pow2_def)
  moreover have "pow2 1024 \<le> pow2 52 * pow2 p"
    unfolding \<open>pow2 52 * pow2 p = pow2 (bitlen z - 1)\<close> using b2 by (intro pow2_mono) simp
  ultimately have "pow2 1024 \<le> rat_of_int (roundHalfEven (rat_of_int z / pow2 p)) * pow2 p"
    by (rule order_trans [rotated])
  then show ?thesis
    unfolding toDoubleAbs_def Let_def p by simp
qed

text \<open>
  A tie goes to the even neighbour: \<open>2 ^ 53 + 1\<close> is rounded down. One tenth is the
  double \<open>3602879701896397 / 2 ^ 55\<close>.
\<close>

lemma toDouble_tie: "toDouble 9007199254740993 = Fin 9007199254740992"
  by code_simp

lemma toDouble_tenth: "toDouble (1 / 10) = Fin (3602879701896397 / 36028797018963968)"
  by code_simp

lemma strIndex_neg_int:
  "z < 0 \<Longrightarrow> strIndex str (JNum (toDouble (of_int z))) = JUndefined"
  using toDouble_neg_int [of z] by auto

lemma strIndex_int:
  "strIndex str (JNum (Fin (of_int j))) =
     (if 0 \<le> j \<and> j < int (length str) then JStr [str ! nat j] else JUndefined)"
  by auto

lemma ltZero_int: "ltZero (JNum (Fin (of_int j))) = (j < 0)"
  by (simp add: ltZero_def)

lemma integerKey_cases:
  assumes "integerKey x = Some i"
  obtains "x = Fin (of_int i)" | "x = NegZero" "i = 0"
  using assms by (cases x) (auto split: if_splits)

lemma readStringOffset_integer:
  assumes "integerKey x = Some i" and "int (length str) \<le> 9007199254740992" and "\<not> byref w"
  shows "readStringOffset w str (JNum x) s =
     (let j = (if i < 0 then i + int (length str) else i) in
      if 0 \<le> j \<and> j < int (length str) then Ok (push (valItem (JStr [str ! nat j])) s)
      else Ok (push (valItem JUndefined)
                 (logd [NoticeUninitializedStringOffset
                          (JNum (if i < 0 then toDouble (of_int j) else x))] s)))"
  using assms(1)
proof (cases rule: integerKey_cases)
  case 1
  show ?thesis
  proof (cases "i < 0")
    case neg: True
    let ?j = "i + int (length str)"
    have e: "rat_of_int ?j = rat_of_int i + rat_of_nat (length str)"
      by simp
    have r: "readStringOffset w str (JNum x) s =
        Ok (push (valItem (strIndex str (JNum (toDouble (of_int ?j)))))
              (if strIndex str (JNum (toDouble (of_int ?j))) = JUndefined
               then logd [NoticeUninitializedStringOffset (JNum (toDouble (of_int ?j)))] s else s))"
      unfolding e using neg assms(3)
      by (simp add: readStringOffset_def Let_def 1 ltZero_int del: strIndex.simps)
    show ?thesis
    proof (cases "0 \<le> ?j")
      case True
      with neg assms(2) have "\<bar>?j\<bar> \<le> 9007199254740992"
        by linarith
      then have "toDouble (of_int ?j) = Fin (of_int ?j)"
        by (rule toDouble_int)
      then show ?thesis
        unfolding r strIndex_int Let_def using neg True by simp
    next
      case False
      then have "strIndex str (JNum (toDouble (of_int ?j))) = JUndefined"
        by (intro strIndex_neg_int) simp
      then show ?thesis
        unfolding r using neg False by (simp add: Let_def)
    qed
  next
    case False
    then show ?thesis
      using assms(3)
      by (simp add: readStringOffset_def Let_def 1 ltZero_int strIndex_int del: strIndex.simps)
  qed
next
  case 2
  then show ?thesis
    using assms(3) by (cases str) (simp_all add: readStringOffset_def ltZero_def)
qed

subsection \<open>The key normalization\<close>

lemma validDecInt_Nil: "validDecInt []"
  by (simp add: validDecInt_def)

lemma normalizeOffsetRead_string_result:
  "typeof (fst (normalizeOffsetRead v)) = TString \<Longrightarrow> snd (normalizeOffsetRead v) = []"
  by (cases v) (auto simp: normalizeOffsetRead_def Let_def validDecInt_Nil split: if_splits)

lemma foldl_radix:
  "foldl (\<lambda>a c. a * 10 + digitVal c) a ds = a * 10 ^ length ds + decimalOf ds"
  by (induction ds arbitrary: a) (simp_all add: algebra_simps)

lemma radixValue_decimalOf: "radixValue 10 ds = decimalOf ds"
  by (simp add: radixValue_def foldl_radix)

lemma trim_id:
  assumes "s \<noteq> []" and "\<not> isWhiteSpace (hd s)" and "\<not> isWhiteSpace (last s)"
  shows "trim s = s"
proof -
  have a: "dropWhile isWhiteSpace s = s"
    using assms(1,2) by (cases s) simp_all
  have "dropWhile isWhiteSpace (rev s) = rev s"
    using assms(1,3) by (cases "rev s") (simp_all add: last_rev [symmetric] del: last_rev)
  then show ?thesis
    by (simp add: trim_def a)
qed

lemma digit_not_ws: "isDigit 10 c \<Longrightarrow> \<not> isWhiteSpace c"
  by (auto simp: isDigit_def digitVal_def isWhiteSpace_def Let_def)

lemma digit_not_I: "isDigit 10 c \<Longrightarrow> c \<noteq> CHR ''I''"
  by (auto simp: isDigit_def digitVal_def Let_def)

lemma digits_unsigned:
  assumes "isDigit 10 d" and "list_all (isDigit 10) ds"
  shows "parseUnsignedDecimal (d # ds) = Some (toDouble (of_nat (decimalOf (d # ds))))"
proof -
  have all: "\<forall>c \<in> set (d # ds). isDigit 10 c"
    using assms by (simp add: list_all_iff)
  have tw: "takeWhile (isDigit 10) (d # ds) = d # ds"
    using all by (metis takeWhile_eq_all_conv)
  have dw: "dropWhile (isDigit 10) (d # ds) = []"
    using all by (metis dropWhile_eq_Nil_conv)
  show ?thesis
    unfolding parseUnsignedDecimal_def Let_def tw dw
    using digit_not_I [OF assms(1)] by (simp add: radixValue_decimalOf del: decimalOf.simps)
qed

lemma negative_literal:
  assumes "isDigit 10 d" and "list_all (isDigit 10) ds"
  shows "StringToNumber (CHR ''-'' # d # ds) = negate (toDouble (of_nat (decimalOf (d # ds))))"
proof -
  have "\<not> isWhiteSpace (last (d # ds))"
    using assms by (intro digit_not_ws) (auto simp: list_all_iff)
  then have t: "trim (CHR ''-'' # d # ds) = CHR ''-'' # d # ds"
    by (intro trim_id) (simp_all add: isWhiteSpace_def)
  show ?thesis
    unfolding StringToNumber_def Let_def t
    by (simp add: digits_unsigned [OF assms] orNaN_def del: decimalOf.simps)
qed

text \<open>
  \<open>Number("-9007199254740993")\<close> is -9007199254740992, \<open>Number("1e400")\<close> is infinity.
\<close>

lemma number_beyond_safe: "StringToNumber ''-9007199254740993'' = Fin (- 9007199254740992)"
proof -
  have d: "isDigit 10 CHR ''9''" "list_all (isDigit 10) ''007199254740993''"
    by (simp_all add: isDigit_def digitVal_def)
  have "decimalOf ''9007199254740993'' = 9007199254740993"
    by (simp add: digitVal_def)
  then show ?thesis
    using negative_literal [OF d] toDouble_tie by simp
qed

lemma number_overflow: "StringToNumber ''1e400'' = PosInf"
proof -
  have a: "(2::int) ^ 1024 \<le> 10 ^ 400"
    by simp
  have "toDouble (rat_of_int (10 ^ 400)) = toDoubleAbs (rat_of_int (10 ^ 400))"
    by (simp add: toDouble_def)
  then have "toDouble (10 ^ 400) = PosInf"
    using toDoubleAbs_overflow [OF a] by simp
  then show ?thesis
    by (simp add: StringToNumber_def trim_def isWhiteSpace_def parseUnsignedDecimal_def
        parseExponent_def digitString_def isDigit_def digitVal_def radixValue_def scale10_def orNaN_def)
qed

text \<open>
  Every key but \<open>undefined\<close> is normalized alike by the two paths. An illegal key is
  coerced to the empty string, which the pattern matches: it ends as 0.
\<close>

lemma normalize_defined:
  "keyVal \<noteq> JUndefined \<Longrightarrow> normalizeOffsetWrite keyVal nm = normalizeOffsetRead keyVal"
  by (simp add: normalizeOffsetWrite_def normalizeOffsetRead_def)

lemma normalize_illegal:
  "keyVal \<noteq> JUndefined \<Longrightarrow> typeof keyVal \<noteq> TBoolean \<Longrightarrow> typeof keyVal \<noteq> TNumber \<Longrightarrow>
   typeof keyVal \<noteq> TString \<Longrightarrow>
   normalizeOffsetRead keyVal = (JNum (Fin 0), [WarningIllegalOffsetType keyVal])"
  by (simp add: normalizeOffsetRead_def validDecInt_Nil StringToNumber_def trim_def)

lemma normalize_boolean: "normalizeOffsetRead (JBool b) = (JNum (Fin (if b then 1 else 0)), [])"
  by (simp add: normalizeOffsetRead_def)

lemma normalize_pattern:
  assumes "validDecInt str"
  shows "normalizeOffsetRead (JStr str) = (JNum (decIntValue str), [])"
proof -
  consider "str = []" | "str = ''0''" | "str = ''-0''"
    | d ds where "str = CHR ''-'' # d # ds" "isDigit 10 d" "d \<noteq> CHR ''0''" "list_all (isDigit 10) ds"
    using assms by (auto simp: validDecInt_def split: list.splits)
  then have "StringToNumber str = decIntValue str"
  proof cases
    case 4
    then show ?thesis
      using negative_literal [of d ds] by (simp add: decIntValue_def del: decimalOf.simps)
  qed (simp_all add: decIntValue_def number_defs)
  then show ?thesis
    using assms by (simp add: normalizeOffsetRead_def)
qed

lemma normalize_other_string:
  "\<not> validDecInt str \<Longrightarrow> normalizeOffsetRead (JStr str) = (JStr str, [])"
  by (simp add: normalizeOffsetRead_def)

lemma normalize_examples:
  "normalizeOffsetRead (JStr ''08'') = (JStr ''08'', [])"
  "normalizeOffsetRead (JStr ''0'') = (JNum (Fin 0), [])"
  "normalizeOffsetRead (JStr ''-0'') = (JNum NegZero, [])"
  "normalizeOffsetRead (JStr ''-1'') = (JNum (Fin (- 1)), [])"
  "normalizeOffsetRead (JStr ''-10'') = (JNum (Fin (- 10)), [])"
  by (simp_all add: normalizeOffsetRead_def validDecInt_def isDigit_def digitVal_def number_defs)

lemma normalize_number: "normalizeOffsetRead (JNum x) = (JNum (math_trunc x), [])"
  by (simp add: normalizeOffsetRead_def)

lemma math_trunc_toward_zero:
  "\<exists>z::int. math_trunc (Fin q) = (if q < 0 \<and> z = 0 then NegZero else Fin (of_int z))
     \<and> \<bar>of_int z\<bar> \<le> \<bar>q\<bar> \<and> \<bar>q - of_int z\<bar> < 1"
proof (cases "0 \<le> q")
  case True
  then show ?thesis
    by (intro exI [of _ "\<lfloor>q\<rfloor>"]) (simp, linarith)
next
  case False
  show ?thesis
  proof (cases "- 1 < q")
    case True
    with False show ?thesis
      by (intro exI [of _ 0]) simp
  next
    case b: False
    with False have "\<lceil>q\<rceil> \<noteq> 0" "\<lceil>q\<rceil> \<le> 0"
      by (simp_all add: ceiling_le_iff) linarith
    with False b show ?thesis
      by (intro exI [of _ "\<lceil>q\<rceil>"]) (simp, linarith)
  qed
qed

lemma negative_zero_same_key:
  "array_get m (JNum NegZero) = array_get m (JNum (Fin 0))"
  "strIndex str (JNum NegZero) = strIndex str (JNum (Fin 0))"
proof -
  show "array_get m (JNum NegZero) = array_get m (JNum (Fin 0))"
    by (induction m) (auto simp: canonKey_def)
  show "strIndex str (JNum NegZero) = strIndex str (JNum (Fin 0))"
    by (cases str) simp_all
qed

subsection \<open>The branches of the WRITE path\<close>

text \<open>
  What the branches on the location come to. A field \<open>type\<close> that is itself a
  boolean or a number gives the warning of the scalar branch; a field that is a
  string, whatever the tag, gives the string branch, which throws; any other field
  gives the error of the last branch. The branches of \<open>"array"\<close>, \<open>"object"\<close> and
  \<open>"null"\<close> are never reached, and no location is ever pushed.
\<close>

lemma writeDispatch_outcome:
  "writeDispatch n d s =
     (case loc d of
        None \<Rightarrow> Throw TypeError s
      | Some l \<Rightarrow>
          (case typeof (ltype l) of
             TBoolean \<Rightarrow> Ok (s\<lparr>stk := emptyItem # stk s, console := console s @ [WarningScalarAsArray]\<rparr>)
           | TNumber \<Rightarrow> Ok (s\<lparr>stk := emptyItem # stk s, console := console s @ [WarningScalarAsArray]\<rparr>)
           | TString \<Rightarrow>
               (case what n of
                  None \<Rightarrow> Throw TypeError s
                | Some w \<Rightarrow>
                    if byref w then
                      Throw (Error ''Fatal error:  Uncaught Error: Cannot create references to/from string offsets.'') s
                    else Throw TypeError s)
           | TUndefined \<Rightarrow>
               Throw (Error ''Eval error: undefined type dereferencable-expression in writing offset'') s
           | TObject \<Rightarrow>
               Throw (Error ''Eval error: undefined type dereferencable-expression in writing offset'') s))"
proof (cases "loc d")
  case None
  then show ?thesis
    by (simp add: writeDispatch_def)
next
  case (Some l)
  then show ?thesis
    by (cases "ltype l")
       (auto simp: writeDispatch_def writeStringOffset_def push_def logd_def split: option.splits)
qed

lemma writeDispatch_string_tag:
  "loc d = Some l \<Longrightarrow> ltype l = JStr t \<Longrightarrow> what n = Some w \<Longrightarrow>
   writeDispatch n d s =
     (if byref w then
        Throw (Error ''Fatal error:  Uncaught Error: Cannot create references to/from string offsets.'') s
      else Throw TypeError s)"
  by (simp add: writeDispatch_outcome)

subsection \<open>The empty subscript\<close>

text \<open>
  Without offset, every intent but WRITE throws at the guard; only the item of the
  node has been popped.
\<close>

lemma empty_subscript_read:
  assumes "stk s = item # rest" and "node item = Some n" and "kind n = ''offsetlookup''"
    and "offset n = None" and "inst item \<noteq> Some ''WRITE''"
  shows "evaluateOffset h s
           = Throw (Error ''Fatal error:  Cannot use [] for reading.'') (s\<lparr>stk := rest\<rparr>)"
  using assms by (simp add: evaluateOffset_def)

text \<open>
  Under WRITE the guard lets it pass: the base is evaluated with the intent WRITE,
  and a base whose location carries a tag ends in the string branch.
\<close>

lemma empty_subscript_write:
  assumes "stk s = item # rest" and "node item = Some n" and "kind n = ''offsetlookup''"
    and "offset n = None" and "inst item = Some ''WRITE''" and "what n = Some w"
    and "evaluate h (s\<lparr>stk := nodeItem (Some w) (Some ''WRITE'') # rest\<rparr>) = Ok s3"
    and "stk s3 = d # rest3" and "loc d = Some l" and "ltype l = JStr t"
  shows "evaluateOffset h s =
     (if byref w then
        Throw (Error ''Fatal error:  Uncaught Error: Cannot create references to/from string offsets.'')
          (s3\<lparr>stk := rest3\<rparr>)
      else Throw TypeError (s3\<lparr>stk := rest3\<rparr>))"
  using assms
  by (simp add: evaluateOffset_def evaluateOffsetWrite_def item_defs
      writeDispatch_string_tag [OF assms(9,10,6)])

text \<open>
  With an offset: the key is evaluated after the base and normalized, and what the
  normalization prints is on the console when the string branch throws.
\<close>

lemma keyed_subscript_write:
  assumes "stk s = item # rest" and "node item = Some n" and "kind n = ''offsetlookup''"
    and "offset n = Some off" and "inst item = Some ''WRITE''" and "what n = Some w"
    and "evaluate h (s\<lparr>stk := nodeItem (Some w) (Some ''WRITE'') # nodeItem (Some off) (Some ''READ'') # rest\<rparr>) = Ok s3"
    and "stk s3 = d # rest3" and "loc d = Some l" and "ltype l = JStr t"
    and "evaluate h (s3\<lparr>stk := rest3\<rparr>) = Ok s5" and "stk s5 = k # rest5"
  shows "evaluateOffset h s =
     (let s6 = s5\<lparr>stk := rest5,
                   console := console s5 @ snd (normalizeOffsetWrite (val k) (nname off))\<rparr>
      in if byref w then
           Throw (Error ''Fatal error:  Uncaught Error: Cannot create references to/from string offsets.'') s6
         else Throw TypeError s6)"
  using assms
  by (simp add: evaluateOffset_def evaluateOffsetWrite_def item_defs Let_def
      writeDispatch_string_tag [OF assms(9,10,6)])

subsection \<open>The stack\<close>

text \<open>A literal on top of the stack is replaced by its value.\<close>

lemma evaluate_literal:
  assumes "stk s = item # rest" and "node item = Some expr"
    and "kind expr = ''boolean'' \<or> kind expr = ''number'' \<or> kind expr = ''string''"
  shows "\<exists>v. evaluate h s = Ok (s\<lparr>stk := valItem v # rest\<rparr>)"
  using assms by (auto simp: evaluate_def push_def)

text \<open>
  A program of expression statements none of which is an assignment or a variable
  leaves the state as it was.
\<close>

lemma run_children_discarded:
  assumes "\<forall>c \<in> set cs. kind c = ''expressionstatement''
             \<and> (\<exists>e. expression c = Some e \<and> kind e \<noteq> ''assign'' \<and> kind e \<noteq> ''variable'')"
  shows "run_children h cs s = Ok s"
  using assms
  by (induction cs) (auto simp: evaluate_def evaluateStatement_def item_defs)

text \<open>
  The READ path on a base that is \<open>undefined\<close> or \<open>null\<close>: when the evaluation of the
  base replaced the base node by its result, \<open>evaluateOffset\<close> returns with the
  result on top of the key node it pushed, one item more than it found.
\<close>

lemma read_null_base_stack:
  assumes "stk s = item # rest" and "node item = Some n" and "kind n = ''offsetlookup''"
    and "inst item = Some ''READ''" and "offset n = Some off" and "what n = Some w"
    and "evaluate h (s\<lparr>stk := nodeItem (Some w) (Some ''READ'') # nodeItem (Some off) (Some ''READ'') # rest\<rparr>) = Ok s3"
    and "stk s3 = d # nodeItem (Some off) (Some ''READ'') # rest"
    and "val d = JUndefined \<or> val d = JNull"
  shows "\<exists>s'. evaluateOffset h s = Ok s'
           \<and> stk s' = valItem JNull # nodeItem (Some off) (Some ''READ'') # rest"
  using assms by (auto simp: evaluateOffset_def evaluateOffsetRead_def item_defs)

text \<open>The READ path on an object: the branch is empty, nothing is pushed.\<close>

lemma read_object_base_stack:
  assumes "stk s = item # rest" and "node item = Some n" and "kind n = ''offsetlookup''"
    and "inst item = Some ''READ''" and "offset n = Some off" and "what n = Some w"
    and "evaluate h (s\<lparr>stk := nodeItem (Some w) (Some ''READ'') # nodeItem (Some off) (Some ''READ'') # rest\<rparr>) = Ok s3"
    and "stk s3 = d # rest3" and "val d = JObject"
    and "evaluate h (s3\<lparr>stk := rest3\<rparr>) = Ok s5" and "stk s5 = k # rest5"
  shows "\<exists>s'. evaluateOffset h s = Ok s' \<and> stk s' = rest5"
  using assms
  by (auto simp: evaluateOffset_def evaluateOffsetRead_def evaluateOffsetReadKey_def item_defs)

section \<open>The claims\<close>

subsection \<open>C1: a subscript write on a scalar\<close>

text \<open>
  C1 says that a WRITE subscript whose base location holds a boolean or a number
  warns "Cannot use a scalar value as an array", pushes an item without location and
  does not throw. The source tests \<open>typeof derefNode.loc.type\<close>, and the branches
  below it compare the same field with the tags \<open>"array"\<close>, \<open>"object"\<close>, \<open>"null"\<close>:
  the field is a tag, its \<open>typeof\<close> is \<open>"string"\<close>, the test for a scalar never holds
  and the string branch runs (\<open>writeDispatch_string_tag\<close>), where the call of
  \<open>this.env.get\<close> throws a TypeError. So for \<open>$a = 1; $a[0] = 2;\<close>, where the location
  of \<open>$a\<close> is tagged \<open>"number"\<close>, in whatever state: a TypeError is thrown and nothing
  is printed.
\<close>

theorem write_on_scalar_location:
  "evaluateOffset (hostReturning (emptyItem\<lparr>loc := Some (locOf ''number'')\<rparr>))
     (push (nodeItem (Some (offsetlookupNode (variableNode ''a'') (Some (numberNode ''0''))))
              (Some ''WRITE''))
        s)
   = Throw TypeError s"
  by (simp add: offset_defs evaluate_def hostReturning_def locOf_def node_defs item_defs
      number_defs)

subsection \<open>C2: a subscript write on an array\<close>

text \<open>
  C2 says that a WRITE subscript whose base location refers to an array pushes a
  location scoped to that array with the normalized key. In the source the branch
  for \<open>"array"\<close> comes after the test \<open>typeof derefNode.loc.type === "string"\<close>, which
  the tag \<open>"array"\<close> passes; it is never reached (\<open>writeDispatch_outcome\<close>), and it
  would push the item \<open>{}\<close> with no location. For \<open>$b[1] = "x"\<close>, where the location
  of \<open>$b\<close> is tagged \<open>"array"\<close>, in whatever state: the string branch runs and the
  call of \<open>this.env.get\<close> throws a TypeError.
\<close>

theorem write_on_array_location:
  "evaluateOffset (hostReturning (emptyItem\<lparr>loc := Some (locOf ''array'')\<rparr>))
     (push (nodeItem (Some (offsetlookupNode (variableNode ''b'') (Some (numberNode ''1''))))
              (Some ''WRITE''))
        s)
   = Throw TypeError s"
  by (simp add: offset_defs evaluate_def hostReturning_def locOf_def node_defs item_defs
      number_defs)

subsection \<open>C3: numeric literals\<close>

text \<open>
  C3 says that the spellings \<open>0x539\<close>, \<open>02471\<close>, \<open>0b10100111001\<close> and \<open>1337e0\<close> all
  evaluate to 1337. \<open>evaluate\<close> applies \<open>Number\<close> to the text of the literal, and
  \<open>Number\<close> reads a leading zero as decimal: three of the four spellings give 1337,
  the octal one gives 2471.
\<close>

theorem number_literal_spellings:
  "evaluate h (push (nodeItem (Some (numberNode ''0x539'')) None) newState)
     = Ok (push (valItem (JNum (Fin 1337))) newState)
   \<and> evaluate h (push (nodeItem (Some (numberNode ''0b10100111001'')) None) newState)
     = Ok (push (valItem (JNum (Fin 1337))) newState)
   \<and> evaluate h (push (nodeItem (Some (numberNode ''1337e0'')) None) newState)
     = Ok (push (valItem (JNum (Fin 1337))) newState)
   \<and> evaluate h (push (nodeItem (Some (numberNode ''02471'')) None) newState)
     = Ok (push (valItem (JNum (Fin 2471))) newState)"
  by (simp add: evaluate_def numberNode_def newState_def item_defs number_defs)

subsection \<open>C4: the stack discipline\<close>

text \<open>
  C4 says that an evaluation pops one item and pushes one. The READ path of
  \<open>evaluateOffset\<close> pushes the key node and the base node, evaluates the base, and
  returns at once when the base is \<open>undefined\<close> or \<open>null\<close>: the key node it pushed is
  still on the stack, under the result (\<open>read_null_base_stack\<close>). Reading \<open>$a[1]\<close>
  with \<open>$a\<close> undefined starts with one item and ends with two.
\<close>

theorem read_undefined_base_leaves_key:
  "evaluateOffset (hostReturning (valItem JUndefined))
     (push (nodeItem (Some (offsetlookupNode (variableNode ''a'') (Some (numberNode ''1''))))
              (Some ''READ''))
        newState)
   = Ok (newState\<lparr>stk := [valItem JNull, nodeItem (Some (numberNode ''1'')) (Some ''READ'')],
                   console := [NoticeUndefinedVariable (JStr ''a'')]\<rparr>)"
  by (simp add: offset_defs evaluate_def hostReturning_def newState_def node_defs item_defs)

subsection \<open>C5: unknown node kinds\<close>




subsection \<open>C6: the empty subscript\<close>

text \<open>
  C6 says that an empty subscript (\<open>$a[]\<close>) is a fatal error under every intent but
  WRITE, and that under WRITE the evaluation proceeds to an append. The first half
  holds (\<open>empty_subscript_read\<close>). Under WRITE the guard lets the node pass and the
  base is evaluated, but no append follows: a base whose location carries a tag
  ends in the string branch, which throws (\<open>empty_subscript_write\<close>). For
  \<open>$a[] = ...\<close>, where the location of \<open>$a\<close> is tagged \<open>"array"\<close>, or \<open>"null"\<close> for a
  variable not yet set, in whatever state: a TypeError is thrown.
\<close>

theorem write_empty_subscript:
  "evaluateOffset (hostReturning (emptyItem\<lparr>loc := Some (locOf ''array'')\<rparr>))
     (push (nodeItem (Some (offsetlookupNode (variableNode ''a'') None)) (Some ''WRITE'')) s)
     = Throw TypeError s
   \<and> evaluateOffset (hostReturning (emptyItem\<lparr>loc := Some (locOf ''null'')\<rparr>))
     (push (nodeItem (Some (offsetlookupNode (variableNode ''a'') None)) (Some ''WRITE'')) s)
     = Throw TypeError s"
  by (simp add: offset_defs evaluate_def hostReturning_def locOf_def node_defs item_defs)

subsection \<open>C7: the key normalization\<close>

text \<open>
  C7 says that the READ and the WRITE path normalize a key alike, and that a key
  whose type is none of boolean, number, string prints a warning and becomes the
  empty string. The two copies of the normalization agree on every key but
  \<open>undefined\<close> (\<open>normalize_defined\<close>). For the key \<open>undefined\<close>, an undefined variable
  used as key, the WRITE copy has an else branch that prints "Undefined variable"
  and takes the empty string; the READ copy has none: the key stays \<open>undefined\<close> and
  nothing is printed for it. Reading \<open>"abc"[$c]\<close> with \<open>$c\<close> undefined looks up the
  property \<open>undefined\<close> of the string.
\<close>

theorem read_undefined_key:
  "normalizeOffsetRead JUndefined = (JUndefined, [])
   \<and> normalizeOffsetWrite JUndefined nm = (JStr [], [NoticeUndefinedVariable nm])
   \<and> evaluateOffset (hostReturning (valItem JUndefined))
        (push (nodeItem (Some (offsetlookupNode (stringNode ''abc'') (Some (variableNode ''c''))))
                 (Some ''READ'')) newState)
      = Ok (newState\<lparr>stk := [valItem JUndefined],
                      console := [NoticeUninitializedStringOffset JUndefined]\<rparr>)"
  by (simp add: offset_defs evaluate_def hostReturning_def newState_def node_defs item_defs)

subsection \<open>C8: reading a string with an integer key\<close>

text \<open>
  C8, as amended: a READ subscript on a string base, with a key that normalizes to
  the integer \<open>i\<close> (negative zero is 0). A base taken by reference throws "Cannot
  create references to/from string offsets". Otherwise a negative \<open>i\<close> counts from
  the end (\<open>j = i + length\<close>); when \<open>j\<close> is an index of the string the character at
  \<open>j\<close> is pushed; when it is not, "Uninitialized string offset" is printed with the
  key (for a negative \<open>i\<close> the sum as the code computes it, the double nearest to
  \<open>j\<close>) and \<open>undefined\<close> is pushed, and nothing is thrown. The length of a JavaScript
  string is below \<open>2 ^ 53\<close>.
\<close>

theorem read_string_integer_key:
  assumes "stk s = item # rest" and "node item = Some n" and "kind n = ''offsetlookup''"
    and "inst item = Some ''READ''" and "offset n = Some off" and "what n = Some w"
    and "evaluate h (s\<lparr>stk := nodeItem (Some w) (Some ''READ'') # nodeItem (Some off) (Some ''READ'') # rest\<rparr>) = Ok s3"
    and "stk s3 = d # rest3" and "val d = JStr str"
    and "evaluate h (s3\<lparr>stk := rest3\<rparr>) = Ok s5"
    and "stk s5 = k # rest5"
    and "fst (normalizeOffsetRead (val k)) = JNum x" and "integerKey x = Some i"
    and "int (length str) \<le> 9007199254740992"
  shows "evaluateOffset h s =
     (let s6 = s5\<lparr>stk := rest5, console := console s5 @ snd (normalizeOffsetRead (val k))\<rparr>;
          j = (if i < 0 then i + int (length str) else i)
      in if byref w then Throw (Error ''Fatal error:  Uncaught Error: Cannot create references to/from string offsets.'') s6
         else if 0 \<le> j \<and> j < int (length str) then
           Ok (s6\<lparr>stk := valItem (JStr [str ! nat j]) # rest5\<rparr>)
         else
           Ok (s6\<lparr>stk := valItem JUndefined # rest5,
                   console := console s6
                     @ [NoticeUninitializedStringOffset
                          (JNum (if i < 0 then toDouble (of_int j) else x))]\<rparr>))"
proof -
  have e: "evaluateOffset h s =
      readStringOffset w str (JNum x)
        (logd (snd (normalizeOffsetRead (val k))) (s5\<lparr>stk := rest5\<rparr>))"
    using assms
    by (simp add: evaluateOffset_def evaluateOffsetRead_def evaluateOffsetReadKey_def item_defs)
  show ?thesis
  proof (cases "byref w")
    case True
    then show ?thesis
      unfolding e by (simp add: readStringOffset_def logd_def Let_def)
  next
    case False
    then show ?thesis
      unfolding e readStringOffset_integer [OF assms(13,14) False]
      by (simp add: Let_def push_def logd_def)
  qed
qed

text \<open>
  \<open>"abc"["-1"]\<close> is \<open>"c"\<close>; \<open>"abc"["-10"]\<close> is \<open>undefined\<close>, with the notice for -7;
  \<open>"abc"["-0"]\<close> is \<open>"a"\<close>; \<open>&$s["-1"]\<close>, where \<open>$s\<close> is \<open>"abc"\<close>, throws.
\<close>

theorem read_string_integer_key_witness:
  "evaluateOffset (hostReturning emptyItem)
     (push (nodeItem (Some (offsetlookupNode (stringNode ''abc'') (Some (stringNode ''-1''))))
              (Some ''READ'')) newState)
     = Ok (push (valItem (JStr ''c'')) newState)
   \<and> evaluateOffset (hostReturning emptyItem)
     (push (nodeItem (Some (offsetlookupNode (stringNode ''abc'') (Some (stringNode ''-10''))))
              (Some ''READ'')) newState)
     = Ok (push (valItem JUndefined)
             (logd [NoticeUninitializedStringOffset (JNum (Fin (- 7)))] newState))
   \<and> evaluateOffset (hostReturning emptyItem)
     (push (nodeItem (Some (offsetlookupNode (stringNode ''abc'') (Some (stringNode ''-0''))))
              (Some ''READ'')) newState)
     = Ok (push (valItem (JStr ''a'')) newState)
   \<and> evaluateOffset (hostReturning (valItem (JStr ''abc'')))
     (push (nodeItem (Some (offsetlookupNode (refVariableNode ''s'') (Some (stringNode ''-1''))))
              (Some ''READ'')) newState)
     = Throw (Error ''Fatal error:  Uncaught Error: Cannot create references to/from string offsets.'') newState"
proof -
  let ?h = "hostReturning emptyItem"
  let ?g = "hostReturning (valItem (JStr ''abc''))"
  let ?w = "stringNode ''abc''"
  let ?r = "refVariableNode ''s''"
  have nd: "\<And>w off. what (offsetlookupNode w (Some off)) = Some w"
      "\<And>w off. offset (offsetlookupNode w (Some off)) = Some off"
      "\<And>w off. kind (offsetlookupNode w (Some off)) = ''offsetlookup''"
    by (simp_all add: node_defs)
  have st: "\<And>n. stk (push (nodeItem (Some n) (Some ''READ'')) newState) = nodeItem (Some n) (Some ''READ'') # []"
      "\<And>n. node (nodeItem (Some n) (Some ''READ'')) = Some n"
      "\<And>n. inst (nodeItem (Some n) (Some ''READ'')) = Some ''READ''"
    by (simp_all add: item_defs newState_def)
  have v: "\<And>a r. stk (newState\<lparr>stk := valItem (JStr a) # r\<rparr>) = valItem (JStr a) # r"
      "\<And>a. val (valItem (JStr a)) = JStr a"
    by (simp_all add: item_defs)
  have e1: "\<And>off. evaluate ?h ((push (nodeItem (Some (offsetlookupNode ?w (Some off))) (Some ''READ'')) newState)
               \<lparr>stk := nodeItem (Some ?w) (Some ''READ'') # nodeItem (Some off) (Some ''READ'') # []\<rparr>)
             = Ok (newState\<lparr>stk := valItem (JStr ''abc'') # [nodeItem (Some off) (Some ''READ'')]\<rparr>)"
    by (simp add: evaluate_def node_defs item_defs)
  have r1: "\<And>off. evaluate ?g ((push (nodeItem (Some (offsetlookupNode ?r (Some off))) (Some ''READ'')) newState)
               \<lparr>stk := nodeItem (Some ?r) (Some ''READ'') # nodeItem (Some off) (Some ''READ'') # []\<rparr>)
             = Ok (newState\<lparr>stk := valItem (JStr ''abc'') # [nodeItem (Some off) (Some ''READ'')]\<rparr>)"
    by (simp add: evaluate_def hostReturning_def node_defs item_defs)
  have e2: "\<And>h a. evaluate h ((newState\<lparr>stk := valItem (JStr ''abc'') # [nodeItem (Some (stringNode a)) (Some ''READ'')]\<rparr>)
               \<lparr>stk := [nodeItem (Some (stringNode a)) (Some ''READ'')]\<rparr>)
             = Ok (newState\<lparr>stk := valItem (JStr a) # []\<rparr>)"
    by (simp add: evaluate_def node_defs item_defs)
  have k1: "fst (normalizeOffsetRead (val (valItem (JStr ''-1'')))) = JNum (Fin (- 1))"
    and k2: "fst (normalizeOffsetRead (val (valItem (JStr ''-10'')))) = JNum (Fin (- 10))"
    and k3: "fst (normalizeOffsetRead (val (valItem (JStr ''-0'')))) = JNum NegZero"
    by (simp_all add: v normalize_examples)
  have f: "\<lfloor>- 1 :: rat\<rfloor> = - 1" "\<lfloor>- 10 :: rat\<rfloor> = - 10"
    by (rule floor_unique; simp)+
  have i1: "integerKey (Fin (- 1)) = Some (- 1)" and i2: "integerKey (Fin (- 10)) = Some (- 10)"
    and i3: "integerKey NegZero = Some 0"
    by (simp_all add: f)
  have l: "int (length ''abc'') \<le> 9007199254740992"
    by simp
  have t: "toDouble (rat_of_int (- 7)) = Fin (- 7)"
    by (simp add: toDouble_def)
  show ?thesis
    using read_string_integer_key [OF st(1) st(2) nd(3) st(3) nd(2) nd(1) e1 v(1) v(2) e2 v(1) k1 i1 l]
      read_string_integer_key [OF st(1) st(2) nd(3) st(3) nd(2) nd(1) e1 v(1) v(2) e2 v(1) k2 i2 l]
      read_string_integer_key [OF st(1) st(2) nd(3) st(3) nd(2) nd(1) e1 v(1) v(2) e2 v(1) k3 i3 l]
      read_string_integer_key [OF st(1) st(2) nd(3) st(3) nd(2) nd(1) r1 v(1) v(2) e2 v(1) k1 i1 l]
      t
    by (simp add: v normalize_examples item_defs newState_def node_defs f)
qed

text \<open>
  C8 as stated fails for a base taken by reference: \<open>&$s["-1"]\<close>, where \<open>$s\<close> is
  \<open>"abc"\<close>, throws.
\<close>

theorem read_string_by_reference:
  "evaluateOffset (hostReturning (valItem (JStr ''abc'')))
     (push (nodeItem (Some (offsetlookupNode (refVariableNode ''s'') (Some (stringNode ''-1''))))
              (Some ''READ'')) newState)
     = Throw (Error ''Fatal error:  Uncaught Error: Cannot create references to/from string offsets.'')
         newState"
  by (simp add: offset_defs evaluate_def hostReturning_def newState_def node_defs
      item_defs isDigit_def digitVal_def number_defs)

subsection \<open>C9: reading with an undefined, null or scalar base\<close>



subsection \<open>C10: reading a string with a string key\<close>

text \<open>
  C10, as amended: a READ subscript on a string base, with a key that is still a
  string after normalization. A base taken by reference throws "Cannot create
  references to/from string offsets". Otherwise the key is replaced by 0 and
  nothing is printed for that: a base that is not empty yields its first character
  and prints nothing at all; the empty base yields \<open>undefined\<close> and prints
  "Uninitialized string offset" with 0.
\<close>

theorem read_string_string_key:
  assumes "stk s = item # rest" and "node item = Some n" and "kind n = ''offsetlookup''"
    and "inst item = Some ''READ''" and "offset n = Some off" and "what n = Some w"
    and "evaluate h (s\<lparr>stk := nodeItem (Some w) (Some ''READ'') # nodeItem (Some off) (Some ''READ'') # rest\<rparr>) = Ok s3"
    and "stk s3 = d # rest3" and "val d = JStr str"
    and "evaluate h (s3\<lparr>stk := rest3\<rparr>) = Ok s5"
    and "stk s5 = k # rest5"
    and "typeof (fst (normalizeOffsetRead (val k))) = TString"
  shows "evaluateOffset h s =
     (if byref w then Throw (Error ''Fatal error:  Uncaught Error: Cannot create references to/from string offsets.'') (s5\<lparr>stk := rest5\<rparr>)
      else if str = [] then
        Ok (s5\<lparr>stk := valItem JUndefined # rest5,
                console := console s5 @ [NoticeUninitializedStringOffset (JNum (Fin 0))]\<rparr>)
      else Ok (s5\<lparr>stk := valItem (JStr [hd str]) # rest5\<rparr>))"
  using assms normalizeOffsetRead_string_result [OF assms(12)]
  by (simp add: evaluateOffset_def evaluateOffsetRead_def evaluateOffsetReadKey_def readStringOffset_def
      item_defs ltZero_def hd_conv_nth)

text \<open>
  \<open>"abc"["foo"]\<close> is \<open>"a"\<close>; \<open>""["foo"]\<close> is \<open>undefined\<close>, with the notice; \<open>&$s["foo"]\<close>,
  where \<open>$s\<close> is \<open>"abc"\<close>, throws.
\<close>

theorem read_string_string_key_witness:
  "evaluateOffset (hostReturning emptyItem)
     (push (nodeItem (Some (offsetlookupNode (stringNode ''abc'') (Some (stringNode ''foo''))))
              (Some ''READ'')) newState)
     = Ok (push (valItem (JStr ''a'')) newState)
   \<and> evaluateOffset (hostReturning emptyItem)
     (push (nodeItem (Some (offsetlookupNode (stringNode []) (Some (stringNode ''foo''))))
              (Some ''READ'')) newState)
     = Ok (push (valItem JUndefined)
             (logd [NoticeUninitializedStringOffset (JNum (Fin 0))] newState))
   \<and> evaluateOffset (hostReturning (valItem (JStr ''abc'')))
     (push (nodeItem (Some (offsetlookupNode (refVariableNode ''s'') (Some (stringNode ''foo''))))
              (Some ''READ'')) newState)
     = Throw (Error ''Fatal error:  Uncaught Error: Cannot create references to/from string offsets.'') newState"
proof -
  let ?h = "hostReturning emptyItem"
  let ?g = "hostReturning (valItem (JStr ''abc''))"
  let ?k = "stringNode ''foo''"
  let ?r = "refVariableNode ''s''"
  have nd: "\<And>w. what (offsetlookupNode w (Some ?k)) = Some w"
      "\<And>w. offset (offsetlookupNode w (Some ?k)) = Some ?k"
      "\<And>w. kind (offsetlookupNode w (Some ?k)) = ''offsetlookup''"
    by (simp_all add: node_defs)
  have st: "\<And>n. stk (push (nodeItem (Some n) (Some ''READ'')) newState) = nodeItem (Some n) (Some ''READ'') # []"
      "\<And>n. node (nodeItem (Some n) (Some ''READ'')) = Some n"
      "\<And>n. inst (nodeItem (Some n) (Some ''READ'')) = Some ''READ''"
    by (simp_all add: item_defs newState_def)
  have v: "\<And>a r. stk (newState\<lparr>stk := valItem (JStr a) # r\<rparr>) = valItem (JStr a) # r"
      "\<And>a. val (valItem (JStr a)) = JStr a"
    by (simp_all add: item_defs)
  have e1: "\<And>a. evaluate ?h ((push (nodeItem (Some (offsetlookupNode (stringNode a) (Some ?k))) (Some ''READ'')) newState)
               \<lparr>stk := nodeItem (Some (stringNode a)) (Some ''READ'') # nodeItem (Some ?k) (Some ''READ'') # []\<rparr>)
             = Ok (newState\<lparr>stk := valItem (JStr a) # [nodeItem (Some ?k) (Some ''READ'')]\<rparr>)"
    by (simp add: evaluate_def node_defs item_defs)
  have r1: "evaluate ?g ((push (nodeItem (Some (offsetlookupNode ?r (Some ?k))) (Some ''READ'')) newState)
               \<lparr>stk := nodeItem (Some ?r) (Some ''READ'') # nodeItem (Some ?k) (Some ''READ'') # []\<rparr>)
             = Ok (newState\<lparr>stk := valItem (JStr ''abc'') # [nodeItem (Some ?k) (Some ''READ'')]\<rparr>)"
    by (simp add: evaluate_def hostReturning_def node_defs item_defs)
  have e2: "\<And>h a. evaluate h ((newState\<lparr>stk := valItem (JStr a) # [nodeItem (Some ?k) (Some ''READ'')]\<rparr>)
               \<lparr>stk := [nodeItem (Some ?k) (Some ''READ'')]\<rparr>)
             = Ok (newState\<lparr>stk := valItem (JStr ''foo'') # []\<rparr>)"
    by (simp add: evaluate_def node_defs item_defs)
  have k: "typeof (fst (normalizeOffsetRead (val (valItem (JStr ''foo''))))) = TString"
    by (simp add: v normalizeOffsetRead_def validDecInt_def)
  show ?thesis
    using read_string_string_key [OF st(1) st(2) nd(3) st(3) nd(2) nd(1) e1 v(1) v(2) e2 v(1) k, of "''abc''"]
      read_string_string_key [OF st(1) st(2) nd(3) st(3) nd(2) nd(1) e1 v(1) v(2) e2 v(1) k, of "[]"]
      read_string_string_key [OF st(1) st(2) nd(3) st(3) nd(2) nd(1) r1 v(1) v(2) e2 v(1) k]
    by (simp add: item_defs newState_def node_defs)
qed

text \<open>
  C10 as stated fails on the empty string, which has no first character: \<open>""["foo"]\<close>
  pushes \<open>undefined\<close> and prints a notice; and for a base taken by reference, which
  throws.
\<close>

theorem read_empty_string_string_key:
  "evaluateOffset (hostReturning emptyItem)
     (push (nodeItem (Some (offsetlookupNode (stringNode []) (Some (stringNode ''foo''))))
              (Some ''READ'')) newState)
     = Ok (push (valItem JUndefined)
             (logd [NoticeUninitializedStringOffset (JNum (Fin 0))] newState))
   \<and> evaluateOffset (hostReturning (valItem (JStr ''abc'')))
     (push (nodeItem (Some (offsetlookupNode (refVariableNode ''s'') (Some (stringNode ''foo''))))
              (Some ''READ'')) newState)
     = Throw (Error ''Fatal error:  Uncaught Error: Cannot create references to/from string offsets.'')
         newState"
  by (simp add: offset_defs evaluate_def hostReturning_def newState_def node_defs
      item_defs isDigit_def digitVal_def number_defs)

end
